theory Spec2Isabelle
  imports
    Complex_Main
    "HOL-Library.Char_ord"
    "HOL-Library.List_Lexorder"
    "HOL-Library.Product_Lexorder"
    "HOL-Library.Option_ord"
    "HOL-Library.Multiset"
begin

section \<open>Guest-portal reconciliation (services_portal_metrics.py)\<close>

text \<open>
  The development embeds the reconciliation logic of \<^verbatim>\<open>src/services_portal_metrics.py\<close>:
  payment-status assignment, reference resolution, the left join with the catering API's
  menu lines, lump-sum de-duplication, box totals, the fixture check and the sum check.

  Conventions of the embedding.
  \<^item> A pandas float is an exact rational or NaN (\<open>num\<close>). Sums and comparisons are
    therefore exact; binary rounding error of float64 is not modelled.
  \<^item> A cell that pandas holds as NaN/None/NaT in an object or datetime column is
    \<open>None\<close> of an option type.
  \<^item> Strings are byte strings; \<open>lower\<close> and \<open>strip\<close> act on ASCII letters and
    ASCII whitespace.
  \<^item> \<open>st.stop()\<close> after \<open>st.error\<close>/\<open>st.warning\<close> ends the script run; the model returns
    \<open>Inl\<close> of a \<open>halt\<close> value there.
\<close>

subsection \<open>Numbers\<close>

datatype num = NaN | Num rat

text \<open>Python's \<^verbatim>\<open>round(x, 2)\<close>: to the nearest multiple of 1/100, ties to the even one.\<close>

definition round_2dec :: "rat \<Rightarrow> rat" where
  "round_2dec x =
     (let y = x * 100; f = \<lfloor>y\<rfloor>; d = y - of_int f
      in (if d < 1 / 2 then of_int f
          else if 1 / 2 < d then of_int (f + 1)
          else if even f then of_int f else of_int (f + 1)) / 100)"

fun round2 :: "num \<Rightarrow> num" where
  "round2 NaN = NaN"
| "round2 (Num x) = Num (round_2dec x)"

text \<open>Float comparison: every comparison with NaN is false, also NaN == NaN.\<close>

fun num_gt0 :: "num \<Rightarrow> bool" where
  "num_gt0 NaN = False"
| "num_gt0 (Num x) = (0 < x)"

fun num_eq :: "num \<Rightarrow> num \<Rightarrow> bool" where
  "num_eq (Num x) (Num y) = (x = y)"
| "num_eq _ _ = False"

text \<open>\<^verbatim>\<open>fillna(0)\<close> on one cell.\<close>

fun fillna0 :: "num \<Rightarrow> rat" where
  "fillna0 NaN = 0"
| "fillna0 (Num x) = x"

subsection \<open>Payment status (assign_payment_status, lines 30-57)\<close>

text \<open>
  A row of \<^verbatim>\<open>df_box_merged\<close>: the box total of one (Location, Event) group, joined
  (left join) with one row of the consolidated payment report. The four amounts are NaN
  when no consolidated row matched. \<^verbatim>\<open>row.get(col, 0)\<close> reads a column that the join
  always provides, so the default 0 is never taken.
\<close>

record box_total_row =
  b_Location :: string
  b_Event :: string
  BoxTotal :: num

record box_merged_row = box_total_row +
  Drawdown :: num
  Credit_Card :: num
  Purchase_orders :: num
  EFT :: num

definition assign_payment_status :: "'a box_merged_row_scheme \<Rightarrow> string" where
  "assign_payment_status row =
     (let total_2dec = round2 (BoxTotal row);
          drawdown_2dec = round2 (Drawdown row);
          credit_2dec = round2 (Credit_Card row);
          purchase_order_2dec = round2 (Purchase_orders row);
          eft_2dec = round2 (EFT row)
      in if num_gt0 drawdown_2dec \<and> num_eq total_2dec drawdown_2dec then ''Drawdown''
         else if num_gt0 credit_2dec \<and> num_eq total_2dec credit_2dec then ''Credit Card''
         else if num_gt0 purchase_order_2dec \<and> num_eq total_2dec purchase_order_2dec
              then ''Purchase Order''
         else if num_gt0 eft_2dec \<and> num_eq total_2dec eft_2dec then ''EFT''
         else '''')"

text \<open>The lambda of lines 643-645 that derives ConsolidatedPaymentStatus.\<close>

definition consolidated_payment_status :: "string \<Rightarrow> string" where
  "consolidated_payment_status x =
     (if x \<in> set [''Credit Card'', ''Purchase Orders'', ''EFT''] then ''Completed''
      else if x = ''Drawdown'' then ''Pending'' else '''')"

subsection \<open>Strings\<close>

text \<open>ASCII whitespace as \<^verbatim>\<open>str.strip\<close> and the regex class \<^verbatim>\<open>\s\<close> see it.\<close>

definition is_space :: "char \<Rightarrow> bool" where
  "is_space c = (let n = (of_char c :: nat) in (9 \<le> n \<and> n \<le> 13) \<or> (28 \<le> n \<and> n \<le> 32))"

definition strip :: "string \<Rightarrow> string" where
  "strip s = rev (dropWhile is_space (rev (dropWhile is_space s)))"

definition lower_char :: "char \<Rightarrow> char" where
  "lower_char c =
     (let n = (of_char c :: nat) in if 65 \<le> n \<and> n \<le> 90 then char_of (n + 32) else c)"

definition lower :: "string \<Rightarrow> string" where
  "lower s = map lower_char s"

text \<open>
  standardize_location (lines 13-25) on one cell that is already a string: strip, lower,
  then the regex substitution \<^verbatim>\<open>^exec\s+\<close> \<open>\<rightarrow>\<close> \<^verbatim>\<open>executive \<close>.
\<close>

definition replace_exec :: "string \<Rightarrow> string" where
  "replace_exec s =
     (if take 4 s = ''exec'' \<and> drop 4 s \<noteq> [] \<and> is_space (hd (drop 4 s))
      then ''executive '' @ dropWhile is_space (drop 4 s) else s)"

definition standardize_location :: "string \<Rightarrow> string" where
  "standardize_location s = replace_exec (lower (strip s))"

subsection \<open>Tables of the linkage stage\<close>

type_synonym date = nat

text \<open>A timestamp is a day and the time within the day; \<^verbatim>\<open>.date()\<close> is the day.\<close>

type_synonym timestamp = "date \<times> nat"

text \<open>
  A row of \<^verbatim>\<open>df_manual\<close> as preprocess_manual (lines 179-198) leaves it. Guest_name is
  NaN when the exported name has no parenthesis (\<^verbatim>\<open>str.extract\<close> finds no match);
  Guest_email went through \<^verbatim>\<open>astype(str)\<close> and Total through \<^verbatim>\<open>fillna(0)\<close>, so neither
  is NaN.
\<close>

record order_row =
  Location :: string
  Event :: string
  Event_Date :: "timestamp option"
  Guest_name :: "string option"
  Guest_email :: string
  Ordered_on :: "timestamp option"
  Licence_type :: "string option"
  Order_type :: string
  Status :: "string option"
  Total :: rat

text \<open>After lines 369-370 the row has an integer EventId.\<close>

record resolved_row = order_row +
  EventId :: int

text \<open>
  After the left join the row has the API columns too, each NaN when no menu line
  matched. (The join renames the two Status columns Status_manual and Status_api;
  lines 383-386 rename the first back and drop the second; line 498 renames Total and
  Status to PreOrderTotal and PreOrderStatus. The model keeps the names Total and Status.)
\<close>

record merged_row = resolved_row +
  KickOffEventStart :: "date option"
  Menu_Item :: "string option"
  OrderedAmount :: "rat option"
  PricePerUnit :: "rat option"
  ApiPrice :: "rat option"
  Status_api :: "string option"

text \<open>
  A row of \<^verbatim>\<open>df_menu\<close> (lines 228-259). \<open>m_EventId\<close> stands for \<^verbatim>\<open>str(eid)\<close>: \<open>None\<close> is
  the string of a missing id.
\<close>

record menu_row =
  m_EventId :: "int option"
  m_Location :: string
  m_Event :: string
  m_KickOffEventStart :: "date option"
  m_Guest_name :: string
  m_Guest_email :: "string option"
  m_Order_type :: string
  m_Menu_Item :: "string option"
  m_OrderedAmount :: rat
  m_PricePerUnit :: rat
  m_ApiPrice :: rat
  m_Status :: "string option"

text \<open>
  A row of \<^verbatim>\<open>df_api\<close>: one catering pre-order of the API, joined with its event. A menu
  dictionary has Name, Quantity and Price; a missing Quantity or Price key is \<open>None\<close>
  (\<^verbatim>\<open>val.get("Quantity", 1)\<close>, \<^verbatim>\<open>val.get("Price", 0)\<close>).
\<close>

record menu_dict =
  Name :: "string option"
  Quantity :: "rat option"
  Price :: "rat option"

record preorder_item =
  ProductName :: "string option"
  pi_OrderedAmount :: "rat option"
  pi_Price :: "rat option"

record api_row =
  a_Guest :: "string option"
  a_Location :: string
  a_Event :: string
  a_EventId :: "int option"
  a_KickOffEventStart :: "date option"
  a_Status :: "string option"
  FoodMenu :: "menu_dict option"
  KidsFoodMenu :: "menu_dict option"
  DrinkMenu :: "menu_dict option"
  KidsDrinkMenu :: "menu_dict option"
  PreOrderItems :: "preorder_item list"

subsection \<open>Halting the run\<close>

datatype halt =
    KeyError string
  | AttributeError
  | MergedEmpty
  | NoConsolidatedInput
  | FixtureMismatch nat nat
  | NoCompletedPreorders
  | ReconciliationMismatch rat rat

subsection \<open>Duplicates, sorting and grouping as pandas does them\<close>

text \<open>\<^verbatim>\<open>drop_duplicates(subset=...)\<close>: of the rows with one key, the first stays.\<close>

fun drop_duplicates_by :: "('a \<Rightarrow> 'k) \<Rightarrow> 'a list \<Rightarrow> 'a list" where
  "drop_duplicates_by key [] = []"
| "drop_duplicates_by key (x # xs) =
     x # drop_duplicates_by key (filter (\<lambda>y. key y \<noteq> key x) xs)"

definition drop_duplicates :: "'a list \<Rightarrow> 'a list" where
  "drop_duplicates df = drop_duplicates_by (\<lambda>r. r) df"

text \<open>
  \<^verbatim>\<open>sort_values\<close> puts NaN last in its column: a key cell that may be NaN is sorted by the
  pair below.
\<close>

fun nan_last :: "'a option \<Rightarrow> bool \<times> 'a option" where
  "nan_last None = (True, None)"
| "nan_last (Some v) = (False, Some v)"

text \<open>
  \<^verbatim>\<open>df.groupby(keys, group_keys=False).apply(f)\<close>: rows with a NaN key cell belong to no
  group (\<^verbatim>\<open>dropna=True\<close> is the default); the groups come in the order of their keys,
  each with its rows in the order of \<open>df\<close>; the results are concatenated.
\<close>

definition groupby_apply ::
  "('a \<Rightarrow> 'k::linorder) \<Rightarrow> ('a \<Rightarrow> bool) \<Rightarrow> ('a list \<Rightarrow> 'b list) \<Rightarrow> 'a list \<Rightarrow> 'b list" where
  "groupby_apply key isna f df =
     (let grouped = filter (\<lambda>r. \<not> isna r) df;
          keys = sort (remdups (map key grouped))
      in concat (map (\<lambda>k. f (filter (\<lambda>r. key r = k) grouped)) keys))"

subsection \<open>The API menu (process_api_menu, lines 200-266)\<close>

definition guest_name_of :: "string \<Rightarrow> string" where
  "guest_name_of guest =
     (if CHR ''('' \<in> set guest then strip (takeWhile (\<lambda>c. c \<noteq> CHR ''('') guest) else guest)"

definition guest_email_of :: "string \<Rightarrow> string option" where
  "guest_email_of guest =
     (if CHR ''('' \<in> set guest \<and> CHR '')'' \<in> set guest
      then Some (lower (strip (filter (\<lambda>c. c \<noteq> CHR '')'')
                  (rev (takeWhile (\<lambda>c. c \<noteq> CHR ''('') (rev guest))))))
      else None)"

definition menu_entry ::
  "api_row \<Rightarrow> string \<Rightarrow> string option \<Rightarrow> rat \<Rightarrow> rat \<Rightarrow> menu_row" where
  "menu_entry row menu_type item qty price =
     (let guest = (case a_Guest row of None \<Rightarrow> '''' | Some g \<Rightarrow> g)
      in \<lparr> m_EventId = a_EventId row,
           m_Location = strip (a_Location row),
           m_Event = strip (a_Event row),
           m_KickOffEventStart = a_KickOffEventStart row,
           m_Guest_name = guest_name_of guest,
           m_Guest_email = guest_email_of guest,
           m_Order_type = menu_type,
           m_Menu_Item = item,
           m_OrderedAmount = qty,
           m_PricePerUnit = price,
           m_ApiPrice = price * qty,
           m_Status = a_Status row \<rparr>)"

text \<open>One of the four menu dictionaries: an entry when it is a dict with a non-empty Name.\<close>

definition menu_of_dict :: "api_row \<Rightarrow> string \<times> (api_row \<Rightarrow> menu_dict option) \<Rightarrow> menu_row list" where
  "menu_of_dict row tk =
     (case snd tk row of
        None \<Rightarrow> []
      | Some val \<Rightarrow>
          (if Name val = None \<or> Name val = Some '''' then []
           else [menu_entry row (fst tk) (Name val)
                   (case Quantity val of None \<Rightarrow> 1 | Some q \<Rightarrow> q)
                   (case Price val of None \<Rightarrow> 0 | Some p \<Rightarrow> p)]))"

definition menu_of_item :: "api_row \<Rightarrow> preorder_item \<Rightarrow> menu_row" where
  "menu_of_item row pit =
     menu_entry row ''Enhancement'' (ProductName pit)
       (case pi_OrderedAmount pit of None \<Rightarrow> 1 | Some q \<Rightarrow> q)
       (case pi_Price pit of None \<Rightarrow> 0 | Some p \<Rightarrow> p)"

definition menu_keys :: "(string \<times> (api_row \<Rightarrow> menu_dict option)) list" where
  "menu_keys = [(''Food'', FoodMenu), (''Kids Food'', KidsFoodMenu),
                (''Drink'', DrinkMenu), (''Kids Drink'', KidsDrinkMenu)]"

type_synonym event_map = "string \<times> string \<times> date option \<rightharpoonup> int"

text \<open>
  One pass of the loop body over an API row: the event map first, then the menu entries.
  The map's value is \<^verbatim>\<open>str(eid)\<close>, which line 370 turns back into the integer; the
  model stores the integer.
\<close>

definition api_menu_step :: "api_row \<Rightarrow> menu_row list \<times> event_map \<Rightarrow> menu_row list \<times> event_map" where
  "api_menu_step row acc =
     (let loc = strip (a_Location row);
          evt = strip (a_Event row);
          event_map' =
            (case (a_EventId row, a_KickOffEventStart row) of
               (Some eid, Some d) \<Rightarrow>
                 if eid \<noteq> 0 \<and> loc \<noteq> '''' \<and> evt \<noteq> ''''
                 then (snd acc)((loc, evt, Some d) \<mapsto> eid) else snd acc
             | _ \<Rightarrow> snd acc)
      in (fst acc @ concat (map (menu_of_dict row) menu_keys)
            @ map (menu_of_item row) (PreOrderItems row),
          event_map'))"

definition menu_subset ::
  "menu_row \<Rightarrow> int option \<times> string \<times> string \<times> string \<times> string option \<times> string \<times> string option" where
  "menu_subset m =
     (m_EventId m, m_Location m, m_Event m, m_Guest_name m, m_Guest_email m,
      m_Order_type m, m_Menu_Item m)"

definition process_api_menu :: "api_row list \<Rightarrow> menu_row list \<times> event_map" where
  "process_api_menu df_api =
     (let acc = fold api_menu_step df_api ([], Map.empty)
      in (drop_duplicates_by menu_subset (fst acc), snd acc))"

subsection \<open>Reference resolution (map_event_id, lines 268-274 and 369-370)\<close>

definition map_event_id :: "'a order_row_scheme \<Rightarrow> event_map \<Rightarrow> int option" where
  "map_event_id row event_map =
     (let loc = strip (Location row);
          evt = strip (Event row);
          date_val = (case Event_Date row of None \<Rightarrow> None | Some ts \<Rightarrow> Some (fst ts))
      in event_map (loc, evt, date_val))"

text \<open>Line 370: \<^verbatim>\<open>pd.to_numeric(...).fillna(0).astype(int)\<close> on the looked-up id.\<close>

definition fillna0_int :: "int option \<Rightarrow> int" where
  "fillna0_int v = (case v of None \<Rightarrow> 0 | Some e \<Rightarrow> e)"

definition resolve_event_ids :: "event_map \<Rightarrow> order_row list \<Rightarrow> resolved_row list" where
  "resolve_event_ids event_map df_manual =
     map (\<lambda>r. order_row.extend r
                (resolved_row.fields (fillna0_int (map_event_id r event_map)))) df_manual"

subsection \<open>The left join with the API menu (lines 359-360 and 375-376)\<close>

text \<open>
  The six join columns. The menu's EventId is the integer of line 360 by then. pandas
  joins on equal cells; a manual Guest_name that is NaN equals no menu Guest_name (always
  a string), and a menu Guest_email that is None equals no manual Guest_email (always a
  string).
\<close>

definition on_merge_keys :: "'a resolved_row_scheme \<Rightarrow> menu_row \<Rightarrow> bool" where
  "on_merge_keys r m \<longleftrightarrow>
     EventId r = fillna0_int (m_EventId m) \<and> Location r = m_Location m \<and>
     Event r = m_Event m \<and> Guest_name r = Some (m_Guest_name m) \<and>
     Some (Guest_email r) = m_Guest_email m \<and> Order_type r = m_Order_type m"

definition joined :: "resolved_row \<Rightarrow> menu_row \<Rightarrow> merged_row" where
  "joined r m =
     resolved_row.extend r
       (merged_row.fields (m_KickOffEventStart m) (m_Menu_Item m) (Some (m_OrderedAmount m))
          (Some (m_PricePerUnit m)) (Some (m_ApiPrice m)) (m_Status m))"

definition unmatched :: "resolved_row \<Rightarrow> merged_row" where
  "unmatched r = resolved_row.extend r (merged_row.fields None None None None None None)"

text \<open>
  \<^verbatim>\<open>df_manual.merge(df_menu, how="left", on=merge_keys)\<close>: the left rows in their order,
  each once per matching menu line (in the menu's order), or once with NaN API cells.
  A menu without rows is a DataFrame without columns, and the join raises KeyError.
\<close>

definition merge_left :: "resolved_row list \<Rightarrow> menu_row list \<Rightarrow> halt + merged_row list" where
  "merge_left df_manual df_menu =
     (if df_menu = [] then Inl (KeyError ''EventId'')
      else Inr (concat (map (\<lambda>r. let ms = filter (on_merge_keys r) df_menu
                                  in if ms = [] then [unmatched r] else map (joined r) ms)
                         df_manual)))"

subsection \<open>Lump-sum de-duplication (lumpsum_deduping, lines 276-284)\<close>

fun clear_lumpsums :: "'a order_row_scheme list \<Rightarrow> 'a order_row_scheme list" where
  "clear_lumpsums [] = []"
| "clear_lumpsums (r # grp) = r # map (\<lambda>x. x\<lparr>Total := 0\<rparr>) grp"

text \<open>
  \<^verbatim>\<open>sort_values\<close> (stable) and \<^verbatim>\<open>groupby(...).apply(clear_lumpsums)\<close> for given key
  columns: \<open>key\<close> gives the sort key of a row's key cells and \<open>isna\<close> says whether one
  of them is NaN.
\<close>

definition lumpsum_zeroed ::
  "('a order_row_scheme \<Rightarrow> 'k::linorder) \<Rightarrow> ('a order_row_scheme \<Rightarrow> bool) \<Rightarrow>
     'a order_row_scheme list \<Rightarrow> 'a order_row_scheme list" where
  "lumpsum_zeroed key isna df = groupby_apply key isna clear_lumpsums (sort_key key df)"

text \<open>
  Lines 277-284 up to the \<^verbatim>\<open>apply\<close>. \<open>has_Ordered_on\<close> is the test
  \<^verbatim>\<open>"Ordered_on" in df.columns\<close>; when it holds the column joins the keys.
\<close>

definition lumpsum_applied ::
  "bool \<Rightarrow> ('a order_row_scheme \<Rightarrow> 'k::linorder) \<Rightarrow> ('a order_row_scheme \<Rightarrow> bool) \<Rightarrow>
     'a order_row_scheme list \<Rightarrow> 'a order_row_scheme list" where
  "lumpsum_applied has_Ordered_on key isna df =
     (if has_Ordered_on
      then lumpsum_zeroed (\<lambda>r. (key r, nan_last (Ordered_on r)))
             (\<lambda>r. isna r \<or> Ordered_on r = None) df
      else lumpsum_zeroed key isna df)"

definition lumpsum_deduping ::
  "bool \<Rightarrow> ('a order_row_scheme \<Rightarrow> 'k::linorder) \<Rightarrow> ('a order_row_scheme \<Rightarrow> bool) \<Rightarrow>
     'a order_row_scheme list \<Rightarrow> 'a order_row_scheme list" where
  "lumpsum_deduping has_Ordered_on key isna df =
     drop_duplicates (lumpsum_applied has_Ordered_on key isna df)"

text \<open>The merge keys of line 375.\<close>

definition merge_keys ::
  "'a resolved_row_scheme \<Rightarrow> int \<times> string \<times> string \<times> (bool \<times> string option) \<times> string \<times> string" where
  "merge_keys r =
     (EventId r, Location r, Event r, nan_last (Guest_name r), Guest_email r, Order_type r)"

definition merge_keys_isna :: "'a resolved_row_scheme \<Rightarrow> bool" where
  "merge_keys_isna r \<longleftrightarrow> Guest_name r = None"

text \<open>Lines 369-380: resolution, join, de-duplication, and the stop on an empty table.\<close>

definition link_orders ::
  "bool \<Rightarrow> event_map \<Rightarrow> order_row list \<Rightarrow> menu_row list \<Rightarrow> halt + merged_row list" where
  "link_orders has_Ordered_on event_map df_manual df_menu =
     (case merge_left (resolve_event_ids event_map df_manual) df_menu of
        Inl e \<Rightarrow> Inl e
      | Inr df_merged \<Rightarrow>
          (let df = lumpsum_deduping has_Ordered_on merge_keys merge_keys_isna df_merged
           in if df = [] then Inl MergedEmpty else Inr df))"

subsection \<open>The consolidated payment report (lines 286-302)\<close>

text \<open>
  The uploaded sheet is a table whose columns are not known in advance: a row maps a
  column name to a cell, and only the names in \<open>columns\<close> are columns of the table.
\<close>

datatype cell = CNaN | CNum rat | CStr string | CDate date

record frame =
  columns :: "string list"
  rows :: "(string \<Rightarrow> cell) list"

text \<open>
  Conversions of pandas that the model takes as given: the text of a number or date cell
  (\<^verbatim>\<open>astype(str)\<close>), \<^verbatim>\<open>pd.to_numeric(errors="coerce")\<close> on a string, and
  \<^verbatim>\<open>pd.to_datetime(errors="coerce").dt.date\<close> on a cell that is no date.
\<close>

record conv =
  str_of :: "cell \<Rightarrow> string"
  to_numeric :: "string \<Rightarrow> rat option"
  to_datetime :: "cell \<Rightarrow> date option"

definition astype_str :: "conv \<Rightarrow> cell \<Rightarrow> string" where
  "astype_str P c = (case c of CStr s \<Rightarrow> s | CNaN \<Rightarrow> ''nan'' | _ \<Rightarrow> str_of P c)"

definition to_date :: "conv \<Rightarrow> cell \<Rightarrow> cell" where
  "to_date P c =
     (case c of
        CDate d \<Rightarrow> CDate d
      | CNaN \<Rightarrow> CNaN
      | _ \<Rightarrow> (case to_datetime P c of None \<Rightarrow> CNaN | Some d \<Rightarrow> CDate d))"

text \<open>\<^verbatim>\<open>df[c] = ...\<close>: the column is replaced, or appended when the table has none of that name.\<close>

definition assign_column :: "string \<Rightarrow> ((string \<Rightarrow> cell) \<Rightarrow> cell) \<Rightarrow> frame \<Rightarrow> frame" where
  "assign_column c f df =
     \<lparr> columns = (if c \<in> set (columns df) then columns df else columns df @ [c]),
       rows = map (\<lambda>r. r(c := f r)) (rows df) \<rparr>"

definition rename_column :: "string \<Rightarrow> string \<Rightarrow> frame \<Rightarrow> frame" where
  "rename_column old new df =
     (if old \<in> set (columns df)
      then \<lparr> columns = map (\<lambda>c. if c = old then new else c) (columns df),
             rows = map (\<lambda>r. r(new := r old)) (rows df) \<rparr>
      else df)"

fun contains :: "string \<Rightarrow> string \<Rightarrow> bool" where
  "contains sub [] = (sub = [])"
| "contains sub (c # s) = (take (length sub) (c # s) = sub \<or> contains sub s)"

text \<open>
  The regex substitution that deletes every pound sign and every comma; the pound sign is
  the two bytes C2 A3 in UTF-8.
\<close>

fun remove_currency :: "string \<Rightarrow> string" where
  "remove_currency (a # b # s) =
     (if a = CHR 0xC2 \<and> b = CHR 0xA3 then remove_currency s
      else if a = CHR '','' then remove_currency (b # s)
      else a # remove_currency (b # s))"
| "remove_currency [a] = (if a = CHR '','' then [] else [a])"
| "remove_currency [] = []"

definition currency :: "conv \<Rightarrow> cell \<Rightarrow> cell" where
  "currency P c =
     CNum (case to_numeric P (remove_currency (astype_str P c)) of None \<Rightarrow> 0 | Some x \<Rightarrow> x)"

definition keep_cols :: "string list" where
  "keep_cols = [''Location'', ''Drawdown'', ''Credit Card'', ''Purchase orders'', ''EFT'']"

text \<open>
  \<open>df\<close> is the sheet as \<^verbatim>\<open>pd.read_excel(file, skiprows=5, header=0)\<close> returns it. When the
  sheet has both a column Credit card and a column Credit Card, the renaming leaves two
  columns of one name, and step 5 fails on the two-column selection.
\<close>

definition preprocess_consolidated_payment_report :: "conv \<Rightarrow> frame \<Rightarrow> halt + frame" where
  "preprocess_consolidated_payment_report P df =
     (let df1 = rename_column ''Credit card'' ''Credit Card'' df
      in if \<not> set keep_cols \<subseteq> set (columns df1) then Inl (KeyError ''keep_cols'')
         else if ''Credit card'' \<in> set (columns df) \<and> ''Credit Card'' \<in> set (columns df)
         then Inl AttributeError
         else
           (let rows2 = filter (\<lambda>r. \<not> list_all (\<lambda>c. r c = CNaN) keep_cols) (rows df1);
                rows3 = filter (\<lambda>r. \<not> contains ''total'' (lower (astype_str P (r ''Location''))))
                          rows2;
                rows5 = map (\<lambda>r. r(''Drawdown'' := currency P (r ''Drawdown''),
                                   ''Credit Card'' := currency P (r ''Credit Card''),
                                   ''Purchase orders'' := currency P (r ''Purchase orders''),
                                   ''EFT'' := currency P (r ''EFT''))) rows3
            in Inr \<lparr> columns = keep_cols, rows = rows5 \<rparr>))"

subsection \<open>The fixture check (lines 549-574)\<close>

definition fixture_columns :: "conv \<Rightarrow> string \<Rightarrow> date \<Rightarrow> frame \<Rightarrow> frame" where
  "fixture_columns P selected_event selected_event_date df =
     (let df1 = (if ''Event'' \<notin> set (columns df)
                 then assign_column ''Event'' (\<lambda>r. CStr (lower (strip selected_event))) df
                 else df);
          df2 = (if ''EventDate'' \<notin> set (columns df1)
                 then assign_column ''EventDate'' (\<lambda>r. CDate selected_event_date) df1
                 else df1);
          df3 = assign_column ''Event''
                  (\<lambda>r. CStr (lower (strip (astype_str P (r ''Event''))))) df2
      in assign_column ''EventDate'' (\<lambda>r. to_date P (r ''EventDate'')) df3)"

definition match_mask :: "string \<Rightarrow> date \<Rightarrow> (string \<Rightarrow> cell) \<Rightarrow> bool" where
  "match_mask selected_event selected_event_date r \<longleftrightarrow>
     r ''Event'' = CStr (lower (strip selected_event)) \<and>
     r ''EventDate'' = CDate selected_event_date"

definition verify_fixture :: "conv \<Rightarrow> string \<Rightarrow> date \<Rightarrow> frame \<Rightarrow> halt + frame" where
  "verify_fixture P selected_event selected_event_date df =
     (let df4 = fixture_columns P selected_event selected_event_date df;
          match_count = length (filter (match_mask selected_event selected_event_date) (rows df4));
          total_rows = length (rows df4)
      in if match_count \<noteq> total_rows then Inl (FixtureMismatch match_count total_rows)
         else Inr (df4\<lparr>rows := filter (match_mask selected_event selected_event_date) (rows df4)\<rparr>))"

subsection \<open>Box totals, payment status and the sum check (lines 542-645)\<close>

record box_status_row = box_merged_row +
  PaymentStatus :: string

record completed_row = merged_row +
  ConsolidatedPaymentType :: "string option"
  ConsolidatedPaymentStatus :: string

text \<open>Lines 581-590: the completed order lines of the selected fixture.\<close>

definition completed_orders :: "string \<Rightarrow> date \<Rightarrow> merged_row list \<Rightarrow> merged_row list" where
  "completed_orders selected_event selected_event_date df_merged =
     (let df_completed =
            map (\<lambda>r. r\<lparr>Location := standardize_location (Location r),
                       Event := lower (strip (Event r))\<rparr>) df_merged;
          df_completed = filter (\<lambda>r. Status r = Some ''Completed'') df_completed
      in filter (\<lambda>r. Event r = lower (strip selected_event) \<and>
                      (case Event_Date r of None \<Rightarrow> False
                       | Some ts \<Rightarrow> fst ts = selected_event_date)) df_completed)"

text \<open>
  Lines 597-602: \<^verbatim>\<open>groupby(["Location", "Event"], as_index=False)["PreOrderTotal"].sum()\<close>,
  one row per group, in the order of the keys.
\<close>

definition box_totals :: "merged_row list \<Rightarrow> box_total_row list" where
  "box_totals df_completed =
     map (\<lambda>k. \<lparr> b_Location = fst k, b_Event = snd k,
                BoxTotal = Num (sum_list (map Total
                  (filter (\<lambda>r. (Location r, Event r) = k) df_completed))) \<rparr>)
       (sort (remdups (map (\<lambda>r. (Location r, Event r)) df_completed)))"

text \<open>A cell of a float column as a float.\<close>

fun cell_num :: "cell \<Rightarrow> num" where
  "cell_num (CNum x) = Num x"
| "cell_num _ = NaN"

text \<open>
  Line 605: the left join of the box totals with the consolidated rows on Location and
  Event.
\<close>

definition box_merge :: "box_total_row list \<Rightarrow> (string \<Rightarrow> cell) list \<Rightarrow> box_merged_row list" where
  "box_merge df_box_totals consolidated =
     concat (map (\<lambda>b.
        let cs = filter (\<lambda>c. c ''Location'' = CStr (b_Location b) \<and>
                              c ''Event'' = CStr (b_Event b)) consolidated
        in if cs = []
           then [box_total_row.extend b (box_merged_row.fields NaN NaN NaN NaN)]
           else map (\<lambda>c. box_total_row.extend b
                      (box_merged_row.fields (cell_num (c ''Drawdown''))
                         (cell_num (c ''Credit Card'')) (cell_num (c ''Purchase orders''))
                         (cell_num (c ''EFT'')))) cs) df_box_totals)"

definition sum_preorders :: "box_total_row list \<Rightarrow> rat" where
  "sum_preorders df_box_totals = sum_list (map (\<lambda>b. fillna0 (BoxTotal b)) df_box_totals)"

definition sum_consolidated :: "'a box_merged_row_scheme list \<Rightarrow> rat" where
  "sum_consolidated df_box_merged =
     (let sum_drawdown = sum_list (map (\<lambda>b. fillna0 (Drawdown b)) df_box_merged);
          sum_credit = sum_list (map (\<lambda>b. fillna0 (Credit_Card b)) df_box_merged);
          sum_po = sum_list (map (\<lambda>b. fillna0 (Purchase_orders b)) df_box_merged);
          sum_eft = sum_list (map (\<lambda>b. fillna0 (EFT b)) df_box_merged)
      in sum_drawdown + sum_credit + sum_po + sum_eft)"

definition tolerance :: rat where
  "tolerance = 1 / 100"

text \<open>Lines 611-634: the sum check; \<open>Inl\<close> is \<^verbatim>\<open>st.error\<close> followed by \<^verbatim>\<open>st.stop()\<close>.\<close>

definition sum_check :: "box_total_row list \<Rightarrow> 'a box_merged_row_scheme list \<Rightarrow> halt + unit" where
  "sum_check df_box_totals df_box_merged =
     (if tolerance < \<bar>sum_preorders df_box_totals - sum_consolidated df_box_merged\<bar>
      then Inl (ReconciliationMismatch (sum_preorders df_box_totals)
                  (sum_consolidated df_box_merged))
      else Inr ())"

text \<open>Lines 638-645: the payment type of its box on every completed line, and the status.\<close>

definition merge_back :: "merged_row list \<Rightarrow> box_status_row list \<Rightarrow> completed_row list" where
  "merge_back df_completed df_box_merged =
     concat (map (\<lambda>r.
        let bs = filter (\<lambda>b. b_Location b = Location r \<and> b_Event b = Event r) df_box_merged
        in if bs = []
           then [merged_row.extend r (completed_row.fields None '''')]
           else map (\<lambda>b. merged_row.extend r
                      (completed_row.fields (Some (PaymentStatus b))
                         (consolidated_payment_status (PaymentStatus b)))) bs) df_completed)"

text \<open>Lines 577-578: Location and Event of the consolidated rows, standardised.\<close>

definition standardize_consolidated :: "conv \<Rightarrow> frame \<Rightarrow> (string \<Rightarrow> cell) list" where
  "standardize_consolidated P df_consolidated =
     map (\<lambda>r. r(''Location'' := CStr (standardize_location (astype_str P (r ''Location''))),
                ''Event'' := CStr (lower (strip (astype_str P (r ''Event''))))))
       (rows df_consolidated)"

text \<open>
  Lines 592-645: from the completed lines and the consolidated rows to the table that the
  final export is written from. Every \<open>Inl\<close> is a run that stops before the export.
\<close>

definition reconcile :: "(string \<Rightarrow> cell) list \<Rightarrow> merged_row list \<Rightarrow> halt + completed_row list" where
  "reconcile consolidated df_completed =
     (if df_completed = [] then Inl NoCompletedPreorders
      else
        (let df_box_totals = box_totals df_completed;
             df_box_merged = box_merge df_box_totals consolidated
         in case sum_check df_box_totals df_box_merged of
              Inl e \<Rightarrow> Inl e
            | Inr _ \<Rightarrow>
                Inr (merge_back df_completed
                       (map (\<lambda>b. box_merged_row.extend b
                               (box_status_row.fields (assign_payment_status b)))
                          df_box_merged))))"

text \<open>
  Lines 542-645 in one function, from the uploaded sheet, the fixture selection and the
  merged table. Without a sheet, a fixture name or a fixture date the section is skipped.
\<close>

definition consolidated_section ::
  "conv \<Rightarrow> frame option \<Rightarrow> string \<Rightarrow> date option \<Rightarrow> merged_row list \<Rightarrow> halt + completed_row list" where
  "consolidated_section P consolidated_file selected_event selected_event_date df_merged =
     (case (consolidated_file, selected_event_date) of
        (Some file, Some sel_date) \<Rightarrow>
          if selected_event = '''' then Inl NoConsolidatedInput
          else
            (case preprocess_consolidated_payment_report P file of
               Inl e \<Rightarrow> Inl e
             | Inr df \<Rightarrow>
                 (case verify_fixture P selected_event sel_date df of
                    Inl e \<Rightarrow> Inl e
                  | Inr df_consolidated \<Rightarrow>
                      reconcile (standardize_consolidated P df_consolidated)
                        (completed_orders selected_event sel_date df_merged)))
      | _ \<Rightarrow> Inl NoConsolidatedInput)"

subsection \<open>Fetching the pre-orders (fetch_api_preorders, lines 169-176)\<close>

text \<open>
  The API is a server with a state: a GET for an event id answers with a status code and
  the list \<^verbatim>\<open>r.json().get("Data", {}).get("CateringPreorders", [])\<close>, and moves the
  server on. The function returns the rows it collected together with what it did to the
  outside: the requests it sent and the messages it logged or showed.
\<close>

record 'a response =
  status_code :: nat
  CateringPreorders :: "'a list"

datatype effect = Http_get int | Log_message string

fun fetch_loop ::
  "('s \<Rightarrow> int \<Rightarrow> 'a response \<times> 's) \<Rightarrow> int list \<Rightarrow> 's \<Rightarrow> 'a list \<Rightarrow> effect list \<Rightarrow>
     'a list \<times> effect list \<times> 's" where
  "fetch_loop get [] s all_data effects = (all_data, effects, s)"
| "fetch_loop get (eid # event_ids) s all_data effects =
     (let (r, s') = get s eid
      in if status_code r = 200
         then fetch_loop get event_ids s' (all_data @ CateringPreorders r) (effects @ [Http_get eid])
         else fetch_loop get event_ids s' all_data (effects @ [Http_get eid]))"

definition fetch_api_preorders ::
  "('s \<Rightarrow> int \<Rightarrow> 'a response \<times> 's) \<Rightarrow> int list \<Rightarrow> 's \<Rightarrow> 'a list \<times> effect list \<times> 's" where
  "fetch_api_preorders get event_ids s = fetch_loop get event_ids s [] []"

subsection \<open>Example tables\<close>

text \<open>A completed food order of one guest for the fixture of day 100, in a given box.\<close>

definition ex_line :: "string \<Rightarrow> string option \<Rightarrow> rat \<Rightarrow> merged_row" where
  "ex_line loc status amount =
     \<lparr> Location = loc, Event = ''Arsenal v Chelsea'', Event_Date = Some (100, 0),
       Guest_name = Some ''J Smith'', Guest_email = ''j@x.com'', Ordered_on = Some (90, 0),
       Licence_type = None, Order_type = ''Food'', Status = status, Total = amount,
       EventId = 7, KickOffEventStart = Some 100, Menu_Item = Some ''Lunch'',
       OrderedAmount = Some 1, PricePerUnit = Some amount, ApiPrice = Some amount,
       Status_api = Some ''Completed'' \<rparr>"

text \<open>A consolidated row after the fixture check: a box with a drawdown and a card amount.\<close>

definition ex_payment :: "string \<Rightarrow> rat \<Rightarrow> rat \<Rightarrow> string \<Rightarrow> cell" where
  "ex_payment loc drawdown credit =
     (\<lambda>c. CNaN)(''Location'' := CStr loc, ''Event'' := CStr ''arsenal v chelsea'',
       ''EventDate'' := CDate 100, ''Drawdown'' := CNum drawdown,
       ''Credit Card'' := CNum credit, ''Purchase orders'' := CNum 0, ''EFT'' := CNum 0)"

text \<open>
  An uploaded sheet with one box and the report's total line. It has a column Event that
  names another fixture.
\<close>

definition ex_sheet :: frame where
  "ex_sheet =
     \<lparr> columns = [''Location'', ''Event'', ''Drawdown'', ''Credit card'', ''Purchase orders'',
                   ''EFT''],
       rows = [(\<lambda>c. CNaN)(''Location'' := CStr ''Exec 1'', ''Event'' := CStr ''Spurs v Leeds'',
                 ''Drawdown'' := CStr ''200.00''),
               (\<lambda>c. CNaN)(''Location'' := CStr ''Total'', ''Drawdown'' := CStr ''200.00'')] \<rparr>"

definition ex_conv :: conv where
  "ex_conv =
     \<lparr> str_of = (\<lambda>c. ''''),
       to_numeric = (\<lambda>s. if s = ''200.00'' then Some 200 else None),
       to_datetime = (\<lambda>c. None) \<rparr>"

text \<open>
  An API pre-order of the same guest in box 12 with a list of enhancement items, and a
  line of the manual export for that guest's enhancement order.
\<close>

definition ex_api :: "preorder_item list \<Rightarrow> api_row" where
  "ex_api items =
     \<lparr> a_Guest = Some ''J Smith (J@x.com)'', a_Location = ''Box 12 '',
       a_Event = ''Arsenal v Chelsea'', a_EventId = Some 7, a_KickOffEventStart = Some 100,
       a_Status = Some ''Completed'', FoodMenu = None, KidsFoodMenu = None, DrinkMenu = None,
       KidsDrinkMenu = None, PreOrderItems = items \<rparr>"

definition ex_item :: "string \<Rightarrow> rat \<Rightarrow> preorder_item" where
  "ex_item product price =
     \<lparr> ProductName = Some product, pi_OrderedAmount = Some 1, pi_Price = Some price \<rparr>"

definition ex_order :: "string \<Rightarrow> timestamp \<Rightarrow> rat \<Rightarrow> order_row" where
  "ex_order loc ordered amount =
     \<lparr> Location = loc, Event = ''Arsenal v Chelsea'', Event_Date = Some (100, 0),
       Guest_name = Some ''J Smith'', Guest_email = ''j@x.com'', Ordered_on = Some ordered,
       Licence_type = None, Order_type = ''Enhancement'', Status = Some ''Completed'',
       Total = amount \<rparr>"

text \<open>The seven fields that the specification gives as the key of a merged line.\<close>

definition composite_key ::
  "merged_row \<Rightarrow> int \<times> string \<times> string \<times> string option \<times> string \<times> string \<times> string option" where
  "composite_key r =
     (EventId r, Location r, Event r, Guest_name r, Guest_email r, Order_type r, Menu_Item r)"

section \<open>Properties\<close>

subsection \<open>Payment status\<close>

lemma round_2dec_100: "round_2dec 100 = 100"
  by (simp add: round_2dec_def Let_def)

lemma round_2dec_0: "round_2dec 0 = 0"
  by (simp add: round_2dec_def Let_def)

text \<open>
  C1 (as amended). The box total and the four amounts are rounded to two decimals. A
  payment method matches when its rounded amount is greater than zero and equal to the
  rounded box total; the status is the first matching method in the order Drawdown,
  Credit Card, Purchase Order, EFT, and the empty string when none matches. A box total of
  100.00 with Credit Card = 100.00 and Drawdown = 0 gives Credit Card (whatever the other
  two amounts are); Drawdown = 100.00 with the others 0 gives Drawdown.
\<close>

theorem assign_payment_status_priority:
  "(let t = round2 (BoxTotal row);
        hit = (\<lambda>a. num_gt0 (round2 a) \<and> num_eq t (round2 a))
    in (assign_payment_status row = ''Drawdown'' \<longleftrightarrow> hit (Drawdown row)) \<and>
       (assign_payment_status row = ''Credit Card'' \<longleftrightarrow>
          \<not> hit (Drawdown row) \<and> hit (Credit_Card row)) \<and>
       (assign_payment_status row = ''Purchase Order'' \<longleftrightarrow>
          \<not> hit (Drawdown row) \<and> \<not> hit (Credit_Card row) \<and> hit (Purchase_orders row)) \<and>
       (assign_payment_status row = ''EFT'' \<longleftrightarrow>
          \<not> hit (Drawdown row) \<and> \<not> hit (Credit_Card row) \<and> \<not> hit (Purchase_orders row) \<and>
          hit (EFT row)) \<and>
       (assign_payment_status row = '''' \<longleftrightarrow>
          \<not> hit (Drawdown row) \<and> \<not> hit (Credit_Card row) \<and> \<not> hit (Purchase_orders row) \<and>
          \<not> hit (EFT row))) \<and>
   assign_payment_status \<lparr>b_Location = loc, b_Event = evt, BoxTotal = Num 100,
      Drawdown = Num 0, Credit_Card = Num 100, Purchase_orders = po, EFT = eft\<rparr>
     = ''Credit Card'' \<and>
   assign_payment_status \<lparr>b_Location = loc, b_Event = evt, BoxTotal = Num 100,
      Drawdown = Num 100, Credit_Card = Num 0, Purchase_orders = Num 0, EFT = Num 0\<rparr>
     = ''Drawdown''"
  by (simp add: assign_payment_status_def Let_def round_2dec_100 round_2dec_0)

text \<open>
  C1 as stated fails: with a box total of 0.00 and all four amounts 0.00 the Drawdown
  amount equals the box total exactly after rounding, and the status is still empty.
\<close>

theorem assign_payment_status_zero_counterexample:
  "num_eq (round2 (Num 0)) (round2 (Num 0)) \<and>
   assign_payment_status \<lparr>b_Location = ''box 1'', b_Event = ''arsenal v chelsea'',
      BoxTotal = Num 0, Drawdown = Num 0, Credit_Card = Num 0, Purchase_orders = Num 0,
      EFT = Num 0\<rparr> = ''''"
  by (simp add: assign_payment_status_def Let_def round_2dec_0)

subsection \<open>The fixture check\<close>

lemma is_space_lower_char: "is_space (lower_char c) = is_space c"
  by (auto simp: is_space_def lower_char_def Let_def)

lemma lower_char_idem: "lower_char (lower_char c) = lower_char c"
  by (auto simp: lower_char_def Let_def)

lemma lower_idem: "lower (lower s) = lower s"
  by (simp add: lower_def lower_char_idem)

lemma dropWhile_space_lower: "dropWhile is_space (lower s) = lower (dropWhile is_space s)"
  by (induction s) (simp_all add: lower_def is_space_lower_char)

lemma rev_lower: "rev (lower s) = lower (rev s)"
  by (simp add: lower_def rev_map)

lemma strip_lower: "strip (lower s) = lower (strip s)"
  by (simp add: strip_def dropWhile_space_lower rev_lower)

lemma dropWhile_rev_fixed:
  "dropWhile P t = t \<Longrightarrow> dropWhile P (rev (dropWhile P (rev t))) = rev (dropWhile P (rev t))"
proof (cases t)
  case Nil
  then show ?thesis by simp
next
  case (Cons x t')
  assume "dropWhile P t = t"
  with Cons have nx: "\<not> P x"
    using length_dropWhile_le[of P t'] by (auto split: if_splits)
  have "dropWhile P (rev t' @ [x]) = dropWhile P (rev t') @ [x]"
    using nx by (simp add: dropWhile_append3)
  with Cons nx show ?thesis by simp
qed

lemma strip_strip: "strip (strip s) = strip s"
  by (simp add: strip_def dropWhile_rev_fixed[OF dropWhile_idem])

lemma lower_strip_idem: "lower (strip (lower (strip s))) = lower (strip s)"
  by (simp add: strip_lower strip_strip lower_idem)

lemma preprocess_columns:
  "preprocess_consolidated_payment_report P sheet = Inr df \<Longrightarrow> columns df = keep_cols"
  by (auto simp: preprocess_consolidated_payment_report_def Let_def split: if_splits)

lemma fixture_rows_match:
  assumes "''Event'' \<notin> set (columns df)" and "''EventDate'' \<notin> set (columns df)"
  shows "list_all (match_mask ev d) (rows (fixture_columns P ev d df))"
  using assms
  by (simp add: fixture_columns_def assign_column_def Let_def list_all_iff match_mask_def
      astype_str_def to_date_def lower_strip_idem)

lemma verify_fixture_passes:
  assumes "''Event'' \<notin> set (columns df)" and "''EventDate'' \<notin> set (columns df)"
  shows "verify_fixture P ev d df = Inr (fixture_columns P ev d df)"
proof -
  have "filter (match_mask ev d) (rows (fixture_columns P ev d df))
          = rows (fixture_columns P ev d df)"
    using fixture_rows_match[OF assms] by (simp add: list_all_iff)
  then show ?thesis by (simp add: verify_fixture_def Let_def)
qed

text \<open>
  C10. Whatever sheet is uploaded and whatever fixture is selected: when preprocessing
  succeeds, the table has exactly the five kept columns, so Event and EventDate are absent
  and are filled from the selection; every row then equals the selection, the check returns
  the table unchanged, and the consolidated section never stops with a fixture mismatch.
\<close>

theorem fixture_check_always_passes:
  "(preprocess_consolidated_payment_report P sheet = Inr df \<longrightarrow>
      columns df = keep_cols \<and>
      ''Event'' \<notin> set (columns df) \<and> ''EventDate'' \<notin> set (columns df) \<and>
      verify_fixture P selected_event selected_event_date df =
        Inr (fixture_columns P selected_event selected_event_date df) \<and>
      list_all (\<lambda>r. r ''Event'' = CStr (lower (strip selected_event)) \<and>
                     r ''EventDate'' = CDate selected_event_date)
        (rows (fixture_columns P selected_event selected_event_date df))) \<and>
   consolidated_section P consolidated_file selected_event date_option df_merged
     \<noteq> Inl (FixtureMismatch match_count total_rows)"
proof -
  have cols: "''Event'' \<notin> set (columns df') \<and> ''EventDate'' \<notin> set (columns df')"
    if "preprocess_consolidated_payment_report P f = Inr df'" for f df'
    using preprocess_columns[OF that] by (simp add: keep_cols_def)
  have passes: "preprocess_consolidated_payment_report P f = Inr df' \<Longrightarrow>
      verify_fixture P selected_event d df' = Inr (fixture_columns P selected_event d df')"
    for f df' d
    using cols verify_fixture_passes by blast
  have pre: "preprocess_consolidated_payment_report P f
               \<noteq> Inl (FixtureMismatch match_count total_rows)" for f
    by (auto simp: preprocess_consolidated_payment_report_def Let_def)
  have rec: "reconcile c m \<noteq> Inl (FixtureMismatch match_count total_rows)" for c m
    by (auto simp: reconcile_def sum_check_def Let_def)
  have sect: "consolidated_section P consolidated_file selected_event date_option df_merged
                \<noteq> Inl (FixtureMismatch match_count total_rows)"
    using passes pre rec
    by (auto simp: consolidated_section_def split: option.splits sum.splits)
  show ?thesis
    using cols[of sheet df] passes[of sheet df]
      fixture_rows_match[of df selected_event selected_event_date P]
      preprocess_columns[of P sheet df] sect
    by (auto simp: match_mask_def[abs_def])
qed

theorem fixture_check_always_passes_witness:
  "\<exists>df. preprocess_consolidated_payment_report ex_conv ex_sheet = Inr df \<and>
        ''Event'' \<in> set (columns ex_sheet) \<and> ''Event'' \<notin> set (columns df) \<and>
        verify_fixture ex_conv ''Arsenal v Chelsea'' 100 df =
          Inr (fixture_columns ex_conv ''Arsenal v Chelsea'' 100 df)"
proof -
  have "case preprocess_consolidated_payment_report ex_conv ex_sheet of
          Inl e \<Rightarrow> False | Inr df \<Rightarrow> True"
    by code_simp
  then obtain df where pre: "preprocess_consolidated_payment_report ex_conv ex_sheet = Inr df"
    by (auto split: sum.splits)
  have "''Event'' \<in> set (columns ex_sheet)"
    by (simp add: ex_sheet_def)
  with pre show ?thesis
    using fixture_check_always_passes[of ex_conv ex_sheet df "''Arsenal v Chelsea''" 100]
    by blast
qed

subsection \<open>The sum check\<close>


text \<open>The consolidated section hands on what lines 592-645 return.\<close>

lemma consolidated_section_reconcile:
  assumes "selected_event \<noteq> ''''"
      and "preprocess_consolidated_payment_report P sheet = Inr df"
      and "verify_fixture P selected_event d df = Inr df_consolidated"
  shows "consolidated_section P (Some sheet) selected_event (Some d) df_merged =
           reconcile (standardize_consolidated P df_consolidated)
             (completed_orders selected_event d df_merged)"
  using assms by (simp add: consolidated_section_def)



subsection \<open>Box totals\<close>

lemma completed_orders_filter:
  "completed_orders ev d df_merged =
     map (\<lambda>r. r\<lparr>Location := standardize_location (Location r), Event := lower (strip (Event r))\<rparr>)
       (filter (\<lambda>r. Status r = Some ''Completed'' \<and> lower (strip (Event r)) = lower (strip ev) \<and>
                      map_option fst (Event_Date r) = Some d) df_merged)"
proof -
  have "(case Event_Date r of None \<Rightarrow> False | Some ts \<Rightarrow> fst ts = d)
          \<longleftrightarrow> map_option fst (Event_Date r) = Some d" for r :: merged_row
    by (cases "Event_Date r") auto
  then show ?thesis
    by (simp add: completed_orders_def Let_def filter_map comp_def conj_commute conj_left_commute)
qed

lemma sum_Total_completed_group:
  "sum_list (map Total (filter (\<lambda>r. (Location r, Event r) = k)
      (completed_orders ev d df_merged))) =
   sum_list (map Total (filter (\<lambda>r.
      standardize_location (Location r) = fst k \<and> lower (strip (Event r)) = snd k \<and>
      Status r = Some ''Completed'' \<and> lower (strip (Event r)) = lower (strip ev) \<and>
      map_option fst (Event_Date r) = Some d) df_merged))"
proof -
  have "filter (\<lambda>r. (standardize_location (Location r), lower (strip (Event r))) = k \<and>
                    Status r = Some ''Completed'' \<and> lower (strip (Event r)) = lower (strip ev) \<and>
                    map_option fst (Event_Date r) = Some d) df_merged =
        filter (\<lambda>r. standardize_location (Location r) = fst k \<and> lower (strip (Event r)) = snd k \<and>
                    Status r = Some ''Completed'' \<and> lower (strip (Event r)) = lower (strip ev) \<and>
                    map_option fst (Event_Date r) = Some d) df_merged"
    by (rule filter_cong) (auto simp: prod_eq_iff)
  then show ?thesis
    by (simp add: completed_orders_filter filter_map comp_def conj_commute)
qed

text \<open>
  C5. After the merged lines are restricted to status Completed and to the selected event
  and date, every box total is the sum of the totals of exactly the merged lines with that
  status, event and date whose standardised location and event are the box's; there is one
  box total per (location, event) that occurs among those lines.
\<close>

theorem box_total_is_sum_of_completed:
  "let df_completed = completed_orders selected_event selected_event_date df_merged;
       df_box_totals = box_totals df_completed
   in (\<forall>b \<in> set df_box_totals.
         BoxTotal b = Num (sum_list (map Total (filter (\<lambda>r.
            standardize_location (Location r) = b_Location b \<and>
            lower (strip (Event r)) = b_Event b \<and>
            Status r = Some ''Completed'' \<and>
            lower (strip (Event r)) = lower (strip selected_event) \<and>
            map_option fst (Event_Date r) = Some selected_event_date) df_merged)))) \<and>
      distinct (map (\<lambda>b. (b_Location b, b_Event b)) df_box_totals) \<and>
      set (map (\<lambda>b. (b_Location b, b_Event b)) df_box_totals) =
        (\<lambda>r. (Location r, Event r)) ` set df_completed"
proof -
  let ?C = "completed_orders selected_event selected_event_date df_merged"
  have keys: "map (\<lambda>b. (b_Location b, b_Event b)) (box_totals ?C) =
                sort (remdups (map (\<lambda>r. (Location r, Event r)) ?C))"
    by (simp add: box_totals_def comp_def)
  have "BoxTotal b = Num (sum_list (map Total (filter (\<lambda>r.
            standardize_location (Location r) = b_Location b \<and>
            lower (strip (Event r)) = b_Event b \<and>
            Status r = Some ''Completed'' \<and>
            lower (strip (Event r)) = lower (strip selected_event) \<and>
            map_option fst (Event_Date r) = Some selected_event_date) df_merged)))"
    if "b \<in> set (box_totals ?C)" for b
  proof -
    from that obtain k where "b = \<lparr> b_Location = fst k, b_Event = snd k,
        BoxTotal = Num (sum_list (map Total (filter (\<lambda>r. (Location r, Event r) = k) ?C))) \<rparr>"
      by (auto simp: box_totals_def)
    then show ?thesis
      by (simp add: sum_Total_completed_group)
  qed
  moreover have "distinct (map (\<lambda>b. (b_Location b, b_Event b)) (box_totals ?C))"
    by (simp only: keys distinct_sort distinct_remdups)
  moreover have "set (map (\<lambda>b. (b_Location b, b_Event b)) (box_totals ?C)) =
                   (\<lambda>r. (Location r, Event r)) ` set ?C"
    by (simp only: keys set_sort set_remdups set_map)
  ultimately show ?thesis
    by (simp add: Let_def)
qed

text \<open>
  Three lines of the selected fixture in one box, written in three ways, one of them not
  completed: the box total is 120 + 80.
\<close>

theorem box_total_is_sum_of_completed_witness:
  "box_totals (completed_orders '' Arsenal v Chelsea'' 100
     [ex_line ''exec  1'' (Some ''Completed'') 120,
      ex_line ''Executive 1 '' (Some ''Completed'') 80,
      ex_line ''Executive 1'' (Some ''Pending'') 50])
     = [\<lparr>b_Location = ''executive 1'', b_Event = ''arsenal v chelsea'', BoxTotal = Num 200\<rparr>] \<and>
   BoxTotal \<lparr>b_Location = ''executive 1'', b_Event = ''arsenal v chelsea'', BoxTotal = Num 200\<rparr>
     = Num (sum_list (map Total (filter (\<lambda>r.
            standardize_location (Location r) = ''executive 1'' \<and>
            lower (strip (Event r)) = ''arsenal v chelsea'' \<and>
            Status r = Some ''Completed'' \<and>
            lower (strip (Event r)) = lower (strip '' Arsenal v Chelsea'') \<and>
            map_option fst (Event_Date r) = Some 100)
         [ex_line ''exec  1'' (Some ''Completed'') 120,
          ex_line ''Executive 1 '' (Some ''Completed'') 80,
          ex_line ''Executive 1'' (Some ''Pending'') 50])))"
proof -
  let ?M = "[ex_line ''exec  1'' (Some ''Completed'') 120,
      ex_line ''Executive 1 '' (Some ''Completed'') 80,
      ex_line ''Executive 1'' (Some ''Pending'') 50]"
  let ?b = "\<lparr>b_Location = ''executive 1'', b_Event = ''arsenal v chelsea'', BoxTotal = Num 200\<rparr>"
  have bt: "box_totals (completed_orders '' Arsenal v Chelsea'' 100 ?M) = [?b]"
    by code_simp
  have "?b \<in> set (box_totals (completed_orders '' Arsenal v Chelsea'' 100 ?M))"
    by (simp only: bt list.set_intros)
  with box_total_is_sum_of_completed[of "'' Arsenal v Chelsea''" 100 ?M, unfolded Let_def,
      THEN conjunct1]
  have "BoxTotal ?b = Num (sum_list (map Total (filter (\<lambda>r.
            standardize_location (Location r) = b_Location ?b \<and>
            lower (strip (Event r)) = b_Event ?b \<and>
            Status r = Some ''Completed'' \<and>
            lower (strip (Event r)) = lower (strip '' Arsenal v Chelsea'') \<and>
            map_option fst (Event_Date r) = Some 100) ?M)))"
    by blast
  with bt show ?thesis
    by simp
qed

subsection \<open>Lump-sum de-duplication\<close>

lemma set_drop_duplicates_by: "set (drop_duplicates_by key xs) \<subseteq> set xs"
  by (induction key xs rule: drop_duplicates_by.induct) auto

lemma distinct_drop_duplicates_by: "distinct (map key (drop_duplicates_by key xs))"
proof (induction key xs rule: drop_duplicates_by.induct)
  case (1 key)
  then show ?case by simp
next
  case (2 key x xs)
  have "key x \<notin> key ` set (drop_duplicates_by key (filter (\<lambda>y. key y \<noteq> key x) xs))"
    using set_drop_duplicates_by[of key "filter (\<lambda>y. key y \<noteq> key x) xs"] by auto
  with 2 show ?case by simp
qed


lemma sum_drop_duplicates_by:
  fixes h :: "'a \<Rightarrow> rat"
  assumes "\<forall>x \<in> set xs. 0 \<le> h x"
  shows "sum_list (map h (drop_duplicates_by key xs)) \<le> sum_list (map h xs)"
  using assms
proof (induction key xs rule: drop_duplicates_by.induct)
  case (1 key)
  then show ?case by simp
next
  case (2 key x xs)
  have "sum_list (map h (filter (\<lambda>y. key y \<noteq> key x) xs)) \<le> sum_list (map h xs)"
    using 2(2) by (induction xs) (auto intro: add_increasing)
  moreover have "sum_list (map h (drop_duplicates_by key (filter (\<lambda>y. key y \<noteq> key x) xs)))
      \<le> sum_list (map h (filter (\<lambda>y. key y \<noteq> key x) xs))"
    using 2 by simp
  ultimately show ?case by simp
qed

lemma sum_filter_le:
  fixes h :: "'a \<Rightarrow> rat"
  assumes "\<forall>x \<in> set xs. 0 \<le> h x"
  shows "sum_list (map h (filter P xs)) \<le> sum_list (map h xs)"
  using assms by (induction xs) (auto intro: add_increasing)

lemma mset_concat_groups:
  assumes "distinct ks"
  shows "mset (concat (map (\<lambda>k. filter (\<lambda>r. key r = k) G) ks)) =
         filter_mset (\<lambda>r. key r \<in> set ks) (mset G)"
  using assms
proof (induction ks)
  case Nil
  then show ?case by simp
next
  case (Cons k ks)
  have "filter_mset (\<lambda>r. key r \<in> set (k # ks)) (mset G) =
        filter_mset (\<lambda>r. key r = k) (mset G) + filter_mset (\<lambda>r. key r \<in> set ks) (mset G)"
    using Cons.prems by (induction G) auto
  with Cons show ?case by simp
qed

lemma sum_concat_groups:
  fixes h :: "'a \<Rightarrow> rat"
  assumes "distinct ks" and "key ` set G \<subseteq> set ks"
  shows "sum_list (map h (concat (map (\<lambda>k. filter (\<lambda>r. key r = k) G) ks))) = sum_list (map h G)"
proof -
  have "filter_mset (\<lambda>r. key r \<in> set ks) (mset G) = mset G"
    using assms(2) by (auto simp: filter_mset_eq_conv)
  then have "mset (concat (map (\<lambda>k. filter (\<lambda>r. key r = k) G) ks)) = mset G"
    using mset_concat_groups[OF assms(1), of key G] by simp
  then have "sum_mset (image_mset h (mset (concat (map (\<lambda>k. filter (\<lambda>r. key r = k) G) ks))))
      = sum_mset (image_mset h (mset G))"
    by (rule arg_cong)
  then show ?thesis
    by (simp only: mset_map[symmetric] sum_mset_sum_list)
qed


lemma sum_list_concat_map:
  fixes h :: "'a \<Rightarrow> rat"
  shows "sum_list (map h (concat xss)) = sum_list (map (\<lambda>xs. sum_list (map h xs)) xss)"
  by (induction xss) simp_all

lemma sum_clear_lumpsums:
  assumes "\<forall>r \<in> set grp. 0 \<le> Total r"
  shows "sum_list (map Total (clear_lumpsums grp)) \<le> sum_list (map Total grp)"
proof (cases grp)
  case Nil
  then show ?thesis by simp
next
  case (Cons r rs)
  have "0 \<le> sum_list (map Total rs)"
    using assms Cons by (intro sum_list_nonneg) auto
  then show ?thesis
    using Cons by (simp add: comp_def)
qed

lemma clear_lumpsums_nonneg:
  assumes "\<forall>r \<in> set grp. 0 \<le> Total r"
  shows "\<forall>r \<in> set (clear_lumpsums grp). 0 \<le> Total r"
  using assms by (cases grp) auto

lemma sum_groupby_apply_clear:
  assumes "\<forall>r \<in> set df. 0 \<le> Total r"
  shows "sum_list (map Total (groupby_apply key isna clear_lumpsums df)) \<le> sum_list (map Total df)"
proof -
  let ?G = "filter (\<lambda>r. \<not> isna r) df"
  let ?ks = "sort (remdups (map key ?G))"
  have nonneg: "\<forall>r \<in> set ?G. 0 \<le> Total r"
    using assms by simp
  have "sum_list (map Total (groupby_apply key isna clear_lumpsums df)) =
        sum_list (map (\<lambda>k. sum_list (map Total (clear_lumpsums (filter (\<lambda>r. key r = k) ?G)))) ?ks)"
    by (simp add: groupby_apply_def Let_def sum_list_concat_map comp_def)
  also have "\<dots> \<le> sum_list (map (\<lambda>k. sum_list (map Total (filter (\<lambda>r. key r = k) ?G))) ?ks)"
    using nonneg by (intro sum_list_mono sum_clear_lumpsums) simp
  also have "\<dots> = sum_list (map Total (concat (map (\<lambda>k. filter (\<lambda>r. key r = k) ?G) ?ks)))"
    by (simp add: sum_list_concat_map comp_def)
  also have "\<dots> = sum_list (map Total ?G)"
    by (rule sum_concat_groups) simp_all
  also have "\<dots> \<le> sum_list (map Total df)"
    using assms by (rule sum_filter_le)
  finally show ?thesis .
qed

lemma groupby_apply_clear_nonneg:
  assumes "\<forall>r \<in> set df. 0 \<le> Total r"
  shows "\<forall>r \<in> set (groupby_apply key isna clear_lumpsums df). 0 \<le> Total r"
proof -
  have "\<forall>r \<in> set (clear_lumpsums (filter (\<lambda>r. key r = k) (filter (\<lambda>r. \<not> isna r) df))). 0 \<le> Total r" for k
    using assms by (intro clear_lumpsums_nonneg) simp
  then show ?thesis
    by (auto simp: groupby_apply_def Let_def)
qed

lemma sum_sort_key: 
  fixes h :: "'a \<Rightarrow> rat"
  shows "sum_list (map h (sort_key key df)) = sum_list (map h df)"
proof -
  have "sum_mset (image_mset h (mset (sort_key key df))) = sum_mset (image_mset h (mset df))"
    by simp
  then show ?thesis
    by (simp only: mset_map[symmetric] sum_mset_sum_list)
qed

lemma sum_lumpsum_zeroed:
  assumes "\<forall>r \<in> set df. 0 \<le> Total r"
  shows "sum_list (map Total (lumpsum_zeroed key isna df)) \<le> sum_list (map Total df)
         \<and> (\<forall>r \<in> set (lumpsum_zeroed key isna df). 0 \<le> Total r)"
proof -
  have "\<forall>r \<in> set (sort_key key df). 0 \<le> Total r"
    using assms by simp
  from sum_groupby_apply_clear[OF this, of key isna] groupby_apply_clear_nonneg[OF this, of key isna]
  show ?thesis
    by (simp add: lumpsum_zeroed_def sum_sort_key)
qed

text \<open>
  C3 (as amended). For every table whose Total values are all non-negative, every choice
  of key columns, and with or without the Ordered_on column, the sum of the Total column
  after lump-sum de-duplication is at most the sum before it.
\<close>

theorem lumpsum_deduping_never_increases:
  assumes "\<forall>r \<in> set df. 0 \<le> Total r"
  shows "sum_list (map Total (lumpsum_deduping has_Ordered_on key isna df)) \<le> sum_list (map Total df)"
proof -
  have z: "sum_list (map Total (lumpsum_applied has_Ordered_on key isna df)) \<le> sum_list (map Total df)
         \<and> (\<forall>r \<in> set (lumpsum_applied has_Ordered_on key isna df). 0 \<le> Total r)"
    using sum_lumpsum_zeroed[OF assms, of key isna]
      sum_lumpsum_zeroed[OF assms, of "\<lambda>r. (key r, nan_last (Ordered_on r))"
        "\<lambda>r. isna r \<or> Ordered_on r = None"]
    by (simp add: lumpsum_applied_def)
  then have "sum_list (map Total (drop_duplicates (lumpsum_applied has_Ordered_on key isna df)))
      \<le> sum_list (map Total (lumpsum_applied has_Ordered_on key isna df))"
    unfolding drop_duplicates_def by (intro sum_drop_duplicates_by) simp
  with z show ?thesis
    by (simp add: lumpsum_deduping_def)
qed

theorem lumpsum_deduping_never_increases_witness:
  "list_all (\<lambda>r. 0 \<le> Total r)
     [ex_line ''box 1'' (Some ''Completed'') 120, ex_line ''box 1'' (Some ''Completed'') 80] \<and>
   sum_list (map Total (lumpsum_deduping True merge_keys merge_keys_isna
     [ex_line ''box 1'' (Some ''Completed'') 120, ex_line ''box 1'' (Some ''Completed'') 80]))
   \<le> sum_list (map Total
     [ex_line ''box 1'' (Some ''Completed'') 120, ex_line ''box 1'' (Some ''Completed'') 80])"
proof -
  have nonneg: "\<forall>r \<in> set [ex_line ''box 1'' (Some ''Completed'') 120,
                            ex_line ''box 1'' (Some ''Completed'') 80]. 0 \<le> Total r"
    by (simp add: ex_line_def)
  from lumpsum_deduping_never_increases[OF nonneg, of True merge_keys merge_keys_isna] nonneg
  show ?thesis
    by (simp only: list_all_iff simp_thms)
qed

text \<open>
  C3 as stated fails on a table with a negative amount: two lines of one group with totals
  5 and -10 sum to -5 before de-duplication and to 5 after it, because the -10 of the
  second line is set to zero.
\<close>

theorem lumpsum_deduping_negative_counterexample:
  "\<not> sum_list (map Total (lumpsum_deduping True merge_keys merge_keys_isna
        [ex_line ''box 1'' (Some ''Completed'') 5, ex_line ''box 1'' (Some ''Completed'') (- 10)]))
      \<le> sum_list (map Total
        [ex_line ''box 1'' (Some ''Completed'') 5, ex_line ''box 1'' (Some ''Completed'') (- 10)])"
  by code_simp











subsection \<open>The API menu and the join\<close>

lemma fillna0_int_Some: "fillna0_int (Some e) = e"
  by (simp add: fillna0_int_def)

lemma matched_menu_item_determines_line:
  assumes "on_merge_keys r m" and "m_EventId m \<noteq> None"
  shows "menu_subset m =
           (Some (EventId r), Location r, Event r, the (Guest_name r), Some (Guest_email r),
            Order_type r, m_Menu_Item m)"
  using assms by (auto simp: on_merge_keys_def menu_subset_def fillna0_int_Some)

text \<open>
  C7 (as amended). The menu lines that process_api_menu returns are uniquely keyed by the
  seven fields (event id, location, event, guest name, guest email, order type, menu item).
  The join with the order records is on the six fields without the menu item; when every
  menu line has an event id, the menu lines that one order record matches differ pairwise
  in their menu item.
\<close>

theorem api_menu_unique_key:
  "distinct (map menu_subset (fst (process_api_menu df_api))) \<and>
   (list_all (\<lambda>m. m_EventId m \<noteq> None) (fst (process_api_menu df_api)) \<longrightarrow>
    distinct (map m_Menu_Item (filter (on_merge_keys r) (fst (process_api_menu df_api)))))"
proof -
  let ?menu = "fst (process_api_menu df_api)"
  let ?c = "\<lambda>item. (Some (EventId r), Location r, Event r, the (Guest_name r),
                      Some (Guest_email r), Order_type r, item)"
  have d: "distinct (map menu_subset ?menu)"
    by (simp add: process_api_menu_def Let_def distinct_drop_duplicates_by)
  have "distinct (map m_Menu_Item (filter (on_merge_keys r) ?menu))"
    if ids: "list_all (\<lambda>m. m_EventId m \<noteq> None) ?menu"
  proof -
    have "map menu_subset (filter (on_merge_keys r) ?menu) =
          map ?c (map m_Menu_Item (filter (on_merge_keys r) ?menu))"
      using ids by (auto simp: list_all_iff matched_menu_item_determines_line)
    moreover have "distinct (map menu_subset (filter (on_merge_keys r) ?menu))"
      using d by (rule distinct_map_filter)
    ultimately have "distinct (map ?c (map m_Menu_Item (filter (on_merge_keys r) ?menu)))"
      by (simp only:)
    then show ?thesis
      by (simp only: distinct_map)
  qed
  with d show ?thesis
    by blast
qed

theorem api_menu_unique_key_witness:
  "list_all (\<lambda>m. m_EventId m \<noteq> None)
     (fst (process_api_menu
        [ex_api [ex_item ''Champagne'' 60, ex_item ''Flowers'' 30, ex_item ''Champagne'' 60]])) \<and>
   distinct (map m_Menu_Item (filter
     (on_merge_keys (order_row.extend (ex_order ''Box 12'' (90, 0) 90) (resolved_row.fields 7)))
     (fst (process_api_menu
        [ex_api [ex_item ''Champagne'' 60, ex_item ''Flowers'' 30, ex_item ''Champagne'' 60]]))))"
proof -
  let ?api = "[ex_api [ex_item ''Champagne'' 60, ex_item ''Flowers'' 30, ex_item ''Champagne'' 60]]"
  have ids: "list_all (\<lambda>m. m_EventId m \<noteq> None) (fst (process_api_menu ?api))"
    by code_simp
  with api_menu_unique_key[of ?api
      "order_row.extend (ex_order ''Box 12'' (90, 0) 90) (resolved_row.fields 7)"]
  show ?thesis
    by blast
qed

text \<open>
  C7 as stated fails. The API holds two enhancement items for one guest, and the manual
  export holds two enhancement orders of that guest, placed on different days. The first
  order record matches two menu lines, and the linked table has four distinct rows of which
  the first and the third agree on all seven fields.
\<close>

theorem merged_lines_not_unique_counterexample:
  "(case process_api_menu [ex_api [ex_item ''Champagne'' 60, ex_item ''Flowers'' 30]] of
      (df_menu, event_map) \<Rightarrow>
        length (filter (on_merge_keys
          (order_row.extend (ex_order ''Box 12'' (90, 0) 90) (resolved_row.fields 7))) df_menu) = 2 \<and>
        (case link_orders True event_map
                [ex_order ''Box 12'' (90, 0) 90, ex_order ''Box 12'' (91, 0) 90] df_menu of
           Inl e \<Rightarrow> False
         | Inr df \<Rightarrow> length df = 4 \<and> distinct df \<and>
                     composite_key (df ! 0) = composite_key (df ! 2)))"
  by code_simp

subsection \<open>Reference resolution\<close>







subsection \<open>Fetching the pre-orders\<close>

lemma fetch_loop_acc:
  "fetch_loop get event_ids s all_data effects =
     (case fetch_loop get event_ids s [] [] of
        (d, e, s') \<Rightarrow> (all_data @ d, effects @ e, s'))"
proof (induction event_ids arbitrary: s all_data effects)
  case Nil
  then show ?case by simp
next
  case (Cons eid event_ids)
  obtain r s1 where g: "get s eid = (r, s1)"
    by (cases "get s eid")
  obtain d e s2 where rest: "fetch_loop get event_ids s1 [] [] = (d, e, s2)"
    by (cases "fetch_loop get event_ids s1 [] []")
  show ?case
    using Cons.IH[of s1 "all_data @ CateringPreorders r" "effects @ [Http_get eid]"]
      Cons.IH[of s1 all_data "effects @ [Http_get eid]"]
      Cons.IH[of s1 "CateringPreorders r" "[Http_get eid]"]
      Cons.IH[of s1 "[]" "[Http_get eid]"]
    by (simp add: g rest)
qed

lemma fetch_api_preorders_Cons:
  "fetch_api_preorders get (eid # event_ids) s =
     (case get s eid of
        (r, s1) \<Rightarrow>
          (case fetch_api_preorders get event_ids s1 of
             (all_data, effects, s2) \<Rightarrow>
               ((if status_code r = 200 then CateringPreorders r else []) @ all_data,
                Http_get eid # effects, s2)))"
proof -
  obtain r s1 where g: "get s eid = (r, s1)"
    by (cases "get s eid")
  obtain d e s2 where rest: "fetch_loop get event_ids s1 [] [] = (d, e, s2)"
    by (cases "fetch_loop get event_ids s1 [] []")
  show ?thesis
    using fetch_loop_acc[of get event_ids s1 "CateringPreorders r" "[Http_get eid]"]
      fetch_loop_acc[of get event_ids s1 "[]" "[Http_get eid]"]
    by (simp add: fetch_api_preorders_def g rest)
qed

lemma fetch_api_preorders_effects:
  "fst (snd (fetch_api_preorders get event_ids s)) = map Http_get event_ids"
proof (induction event_ids arbitrary: s)
  case Nil
  then show ?case by (simp add: fetch_api_preorders_def)
next
  case (Cons eid event_ids)
  obtain r s1 where g: "get s eid = (r, s1)"
    by (cases "get s eid")
  obtain d e s2 where rest: "fetch_api_preorders get event_ids s1 = (d, e, s2)"
    by (cases "fetch_api_preorders get event_ids s1")
  show ?case
    using Cons.IH[of s1] by (simp add: fetch_api_preorders_Cons g rest)
qed

lemma fetch_api_preorders_stateless:
  "fst (fetch_api_preorders (\<lambda>s eid. (answer eid, s)) event_ids s) =
     concat (map (\<lambda>eid. CateringPreorders (answer eid))
       (filter (\<lambda>eid. status_code (answer eid) = 200) event_ids))"
proof (induction event_ids)
  case Nil
  then show ?case by (simp add: fetch_api_preorders_def)
next
  case (Cons eid event_ids)
  obtain d e s2
    where rest: "fetch_api_preorders (\<lambda>s eid. (answer eid, s)) event_ids s = (d, e, s2)"
    by (cases "fetch_api_preorders (\<lambda>s eid. (answer eid, s)) event_ids s")
  show ?case
    using Cons.IH by (simp add: fetch_api_preorders_Cons rest)
qed

text \<open>
  C8 (as amended). The function sends one GET per event id, in order, whatever the
  answers are. An answer with status 200 contributes its pre-orders to the batch, any
  other answer contributes nothing, and the loop goes on with the next event id. The
  requests are all the function does to the outside: a failed call is not repeated and
  nothing is logged or shown.
\<close>

theorem fetch_api_preorders_skips_failures:
  "fetch_api_preorders get [] s = ([], [], s) \<and>
   fetch_api_preorders get (eid # event_ids) s =
     (case get s eid of
        (r, s1) \<Rightarrow>
          (case fetch_api_preorders get event_ids s1 of
             (all_data, effects, s2) \<Rightarrow>
               ((if status_code r = 200 then CateringPreorders r else []) @ all_data,
                Http_get eid # effects, s2))) \<and>
   fst (snd (fetch_api_preorders get event_ids s)) = map Http_get event_ids \<and>
   fst (fetch_api_preorders (\<lambda>s eid. (answer eid, s)) event_ids s) =
     concat (map (\<lambda>eid. CateringPreorders (answer eid))
       (filter (\<lambda>eid. status_code (answer eid) = 200) event_ids))"
  using fetch_api_preorders_Cons[of get eid event_ids s]
    fetch_api_preorders_effects[of get event_ids s]
    fetch_api_preorders_stateless[of answer event_ids s]
  by (simp add: fetch_api_preorders_def)

text \<open>
  C8 as stated fails in one point: when the call for event 7 answers 500 and the call for
  event 8 answers 200, the batch holds the pre-orders of event 8 only, and the run has made
  the two requests and logged nothing.
\<close>

theorem fetch_failure_not_logged_counterexample:
  "fetch_api_preorders
     (\<lambda>s eid. (\<lparr>status_code = (if eid = 7 then 500 else 200),
                 CateringPreorders = (if eid = 7 then [] else [''order of event 8''])\<rparr>, s))
     [7, 8] () = ([''order of event 8''], [Http_get 7, Http_get 8], ()) \<and>
   \<not> (\<exists>msg. Log_message msg \<in> set (fst (snd (fetch_api_preorders
     (\<lambda>s eid. (\<lparr>status_code = (if eid = 7 then 500 else 200),
                 CateringPreorders = (if eid = 7 then [] else [''order of event 8''])\<rparr>, s))
     [7, 8] ()))))"
  by (simp add: fetch_api_preorders_def)

subsection \<open>Payment status of the completed lines\<close>

lemma assign_payment_status_range:
  "assign_payment_status row \<in> {''Drawdown'', ''Credit Card'', ''Purchase Order'', ''EFT'', ''''}"
  by (simp add: assign_payment_status_def Let_def)

lemma box_totals_has_box:
  assumes "r \<in> set df_completed"
  shows "\<exists>b \<in> set (box_totals df_completed). b_Location b = Location r \<and> b_Event b = Event r"
proof -
  let ?row = "\<lambda>k. \<lparr> b_Location = fst k, b_Event = snd k,
                BoxTotal = Num (sum_list (map Total
                  (filter (\<lambda>r. (Location r, Event r) = k) df_completed))) \<rparr>"
  have "(Location r, Event r) \<in> set (sort (remdups (map (\<lambda>r. (Location r, Event r)) df_completed)))"
    using assms by (simp only: set_sort set_remdups set_map) (rule imageI)
  then have "?row (Location r, Event r) \<in> set (box_totals df_completed)"
    unfolding box_totals_def set_map by (rule imageI)
  moreover have "b_Location (?row (Location r, Event r)) = Location r \<and>
                 b_Event (?row (Location r, Event r)) = Event r"
    by simp
  ultimately show ?thesis
    by blast
qed

lemma box_merge_has_box:
  assumes "b \<in> set df_box_totals"
  shows "\<exists>m \<in> set (box_merge df_box_totals consolidated).
           b_Location m = b_Location b \<and> b_Event m = b_Event b"
proof -
  let ?rows = "\<lambda>b. let cs = filter (\<lambda>c. c ''Location'' = CStr (b_Location b) \<and>
                              c ''Event'' = CStr (b_Event b)) consolidated
        in if cs = []
           then [box_total_row.extend b (box_merged_row.fields NaN NaN NaN NaN)]
           else map (\<lambda>c. box_total_row.extend b
                      (box_merged_row.fields (cell_num (c ''Drawdown''))
                         (cell_num (c ''Credit Card'')) (cell_num (c ''Purchase orders''))
                         (cell_num (c ''EFT'')))) cs"
  have "\<exists>m \<in> set (?rows b). b_Location m = b_Location b \<and> b_Event m = b_Event b"
  proof (cases "filter (\<lambda>c. c ''Location'' = CStr (b_Location b) \<and>
                              c ''Event'' = CStr (b_Event b)) consolidated")
    case Nil
    then show ?thesis
      by (simp add: box_total_row.extend_def)
  next
    case (Cons c cs)
    then show ?thesis
      by (simp add: box_total_row.extend_def)
  qed
  then obtain m where "m \<in> set (?rows b)" "b_Location m = b_Location b \<and> b_Event m = b_Event b"
    by blast
  with assms show ?thesis
    unfolding box_merge_def set_concat set_map by blast
qed

lemma merge_back_rows:
  assumes "c \<in> set (merge_back df_completed df_status)"
  shows "\<exists>r \<in> set df_completed.
           (filter (\<lambda>b. b_Location b = Location r \<and> b_Event b = Event r) df_status = [] \<and>
              ConsolidatedPaymentType c = None \<and> ConsolidatedPaymentStatus c = '''') \<or>
           (\<exists>b \<in> set df_status. ConsolidatedPaymentType c = Some (PaymentStatus b) \<and>
              ConsolidatedPaymentStatus c = consolidated_payment_status (PaymentStatus b))"
proof -
  let ?rows = "\<lambda>r. let bs = filter (\<lambda>b. b_Location b = Location r \<and> b_Event b = Event r) df_status
        in if bs = []
           then [merged_row.extend r (completed_row.fields None '''')]
           else map (\<lambda>b. merged_row.extend r
                      (completed_row.fields (Some (PaymentStatus b))
                         (consolidated_payment_status (PaymentStatus b)))) bs"
  from assms obtain r where r: "r \<in> set df_completed" and c: "c \<in> set (?rows r)"
    unfolding merge_back_def set_concat set_map by blast
  show ?thesis
  proof (cases "filter (\<lambda>b. b_Location b = Location r \<and> b_Event b = Event r) df_status = []")
    case True
    with c have "ConsolidatedPaymentType c = None \<and> ConsolidatedPaymentStatus c = ''''"
      by (simp add: merged_row.extend_def completed_row.fields_def)
    with True r show ?thesis by blast
  next
    case False
    with c obtain b where "b \<in> set df_status"
      and "c = merged_row.extend r (completed_row.fields (Some (PaymentStatus b))
                         (consolidated_payment_status (PaymentStatus b)))"
      by (auto simp: Let_def)
    then have "b \<in> set df_status \<and> ConsolidatedPaymentType c = Some (PaymentStatus b) \<and>
              ConsolidatedPaymentStatus c = consolidated_payment_status (PaymentStatus b)"
      by (simp add: merged_row.extend_def completed_row.fields_def)
    with r show ?thesis by blast
  qed
qed


lemma reconcile_rows:
  assumes "reconcile consolidated df_completed = Inr out" and "c \<in> set out"
  shows "\<exists>row::box_merged_row. ConsolidatedPaymentType c = Some (assign_payment_status row) \<and>
           ConsolidatedPaymentStatus c = consolidated_payment_status (assign_payment_status row)"
proof -
  let ?bm = "box_merge (box_totals df_completed) consolidated"
  let ?st = "map (\<lambda>b. box_merged_row.extend b (box_status_row.fields (assign_payment_status b))) ?bm"
  from assms(1) have out: "out = merge_back df_completed ?st"
    by (auto simp: reconcile_def Let_def split: if_splits sum.splits)
  from merge_back_rows[OF assms(2)[unfolded out]]
  obtain r where r: "r \<in> set df_completed"
    and alt: "(filter (\<lambda>b. b_Location b = Location r \<and> b_Event b = Event r) ?st = [] \<and>
              ConsolidatedPaymentType c = None \<and> ConsolidatedPaymentStatus c = '''') \<or>
           (\<exists>b \<in> set ?st. ConsolidatedPaymentType c = Some (PaymentStatus b) \<and>
              ConsolidatedPaymentStatus c = consolidated_payment_status (PaymentStatus b))"
    by blast
  from box_totals_has_box[OF r] obtain b
    where "b \<in> set (box_totals df_completed)" "b_Location b = Location r \<and> b_Event b = Event r"
    by blast
  with box_merge_has_box[of b "box_totals df_completed" consolidated] obtain m
    where m: "m \<in> set ?bm" "b_Location m = Location r \<and> b_Event m = Event r"
    by auto
  let ?s = "box_merged_row.extend m (box_status_row.fields (assign_payment_status m))"
  have "?s \<in> set ?st"
    using m(1) by simp
  moreover have "b_Location ?s = Location r \<and> b_Event ?s = Event r"
    using m(2) by (simp add: box_merged_row.extend_def)
  ultimately have "filter (\<lambda>b. b_Location b = Location r \<and> b_Event b = Event r) ?st \<noteq> []"
    by (auto simp: filter_empty_conv)
  with alt obtain s where "s \<in> set ?st" and
     s: "ConsolidatedPaymentType c = Some (PaymentStatus s) \<and>
         ConsolidatedPaymentStatus c = consolidated_payment_status (PaymentStatus s)"
    by blast
  then obtain row :: box_merged_row where "PaymentStatus s = assign_payment_status row"
    by (auto simp: box_merged_row.extend_def box_status_row.fields_def)
  with s show ?thesis
    by auto
qed

text \<open>
  C9. Every line of the table that lines 592-645 produce carries a payment type that
  assign_payment_status returned, and its status is Completed exactly when that type is
  Credit Card or EFT, Pending exactly when it is Drawdown, and empty otherwise. The list
  that the derivation tests holds the plural Purchase Orders, which assign_payment_status
  never returns; the Purchase Order it does return gets the empty status.
\<close>

theorem consolidated_payment_status_of_type:
  "(reconcile consolidated df_completed = Inr out \<longrightarrow>
      (\<forall>c \<in> set out. \<exists>t.
          ConsolidatedPaymentType c = Some t \<and>
          t \<in> {''Drawdown'', ''Credit Card'', ''Purchase Order'', ''EFT'', ''''} \<and>
          (ConsolidatedPaymentStatus c = ''Completed'' \<longleftrightarrow> t = ''Credit Card'' \<or> t = ''EFT'') \<and>
          (ConsolidatedPaymentStatus c = ''Pending'' \<longleftrightarrow> t = ''Drawdown'') \<and>
          (ConsolidatedPaymentStatus c = '''' \<longleftrightarrow>
             t \<notin> {''Credit Card'', ''EFT'', ''Drawdown''}))) \<and>
   (consolidated_payment_status (assign_payment_status row) = ''Completed'' \<longleftrightarrow>
      assign_payment_status row = ''Credit Card'' \<or> assign_payment_status row = ''EFT'') \<and>
   (consolidated_payment_status (assign_payment_status row) = ''Pending'' \<longleftrightarrow>
      assign_payment_status row = ''Drawdown'') \<and>
   (consolidated_payment_status (assign_payment_status row) = '''' \<longleftrightarrow>
      assign_payment_status row \<notin> {''Credit Card'', ''EFT'', ''Drawdown''}) \<and>
   assign_payment_status row \<noteq> ''Purchase Orders'' \<and>
   consolidated_payment_status ''Purchase Order'' = ''''"
proof -
  have derive: "(consolidated_payment_status (assign_payment_status b) = ''Completed'' \<longleftrightarrow>
      assign_payment_status b = ''Credit Card'' \<or> assign_payment_status b = ''EFT'') \<and>
   (consolidated_payment_status (assign_payment_status b) = ''Pending'' \<longleftrightarrow>
      assign_payment_status b = ''Drawdown'') \<and>
   (consolidated_payment_status (assign_payment_status b) = '''' \<longleftrightarrow>
      assign_payment_status b \<notin> {''Credit Card'', ''EFT'', ''Drawdown''}) \<and>
   assign_payment_status b \<noteq> ''Purchase Orders''" for b :: "'b box_merged_row_scheme"
    by (simp add: assign_payment_status_def consolidated_payment_status_def Let_def)
  have po: "consolidated_payment_status ''Purchase Order'' = ''''"
    by (simp add: consolidated_payment_status_def)
  have "\<exists>t. ConsolidatedPaymentType c = Some t \<and>
          t \<in> {''Drawdown'', ''Credit Card'', ''Purchase Order'', ''EFT'', ''''} \<and>
          (ConsolidatedPaymentStatus c = ''Completed'' \<longleftrightarrow> t = ''Credit Card'' \<or> t = ''EFT'') \<and>
          (ConsolidatedPaymentStatus c = ''Pending'' \<longleftrightarrow> t = ''Drawdown'') \<and>
          (ConsolidatedPaymentStatus c = '''' \<longleftrightarrow> t \<notin> {''Credit Card'', ''EFT'', ''Drawdown''})"
    if run: "reconcile consolidated df_completed = Inr out" and c: "c \<in> set out" for c
  proof -
    from reconcile_rows[OF run c] obtain b :: box_merged_row
      where b: "ConsolidatedPaymentType c = Some (assign_payment_status b)"
               "ConsolidatedPaymentStatus c = consolidated_payment_status (assign_payment_status b)"
      by blast
    show ?thesis
      using derive[of b] assign_payment_status_range[of b]
      by (intro exI[of _ "assign_payment_status b"]) (simp only: b simp_thms)
  qed
  with derive[of row] po show ?thesis
    by blast
qed

text \<open>
  A box whose total of 200.00 equals the purchase-order amount: its line gets the payment
  type Purchase Order and, by the theorem, the empty status.
\<close>

theorem consolidated_payment_status_of_type_witness:
  "\<exists>out c.
     reconcile [(ex_payment ''box 1'' 0 0)(''Purchase orders'' := CNum 200)]
       (completed_orders ''Arsenal v Chelsea'' 100 [ex_line ''box 1'' (Some ''Completed'') 200])
       = Inr out \<and>
     c \<in> set out \<and> ConsolidatedPaymentType c = Some ''Purchase Order'' \<and>
     ConsolidatedPaymentStatus c = ''''"
proof -
  let ?run = "reconcile [(ex_payment ''box 1'' 0 0)(''Purchase orders'' := CNum 200)]
       (completed_orders ''Arsenal v Chelsea'' 100 [ex_line ''box 1'' (Some ''Completed'') 200])"
  have "case ?run of Inl e \<Rightarrow> False
        | Inr out \<Rightarrow> out \<noteq> [] \<and> ConsolidatedPaymentType (hd out) = Some ''Purchase Order''"
    by code_simp
  then obtain out where run: "?run = Inr out" and ne: "out \<noteq> []"
    and ty: "ConsolidatedPaymentType (hd out) = Some ''Purchase Order''"
    by (auto split: sum.splits)
  from ne have mem: "hd out \<in> set out"
    by simp
  note rows = consolidated_payment_status_of_type[of
      "[(ex_payment ''box 1'' 0 0)(''Purchase orders'' := CNum 200)]"
      "completed_orders ''Arsenal v Chelsea'' 100 [ex_line ''box 1'' (Some ''Completed'') 200]"
      out, THEN conjunct1, rule_format, OF run mem]
  then obtain t where "ConsolidatedPaymentType (hd out) = Some t"
    and "ConsolidatedPaymentStatus (hd out) = '''' \<longleftrightarrow> t \<notin> {''Credit Card'', ''EFT'', ''Drawdown''}"
    by (elim exE conjE)
  with ty have "ConsolidatedPaymentStatus (hd out) = ''''"
    by simp
  with run mem ty show ?thesis
    by blast
qed

end
